theory Spec2Isabelle
  imports Complex_Main
begin

section \<open>JavaScript values\<close>

text \<open>
  A JavaScript string is a sequence of UTF-16 code units; \<open>length\<close> counts code units.
  String literals of the source are written \<open>lit ''...''\<close>.
\<close>

type_synonym jsstring = "nat list"

definition lit :: "string \<Rightarrow> jsstring" where
  "lit s = map of_char s"

text \<open>
  Thrown values. Every \<open>throw\<close> of the sources throws an \<open>Error\<close>; the runtime throws
  \<open>TypeError\<close>, \<open>RangeError\<close> and \<open>SyntaxError\<close>, all of them subclasses of \<open>Error\<close>, so
  \<open>err instanceof Error ? err.message : String(err)\<close> is \<open>message err\<close> for each of them.
  A function that can throw returns \<open>exn + 'a\<close>, with \<open>Inl\<close> for the thrown value.
\<close>

datatype exn =
    Error jsstring
  | TypeError jsstring
  | RangeError jsstring
  | SyntaxError jsstring

fun message :: "exn \<Rightarrow> jsstring" where
  "message (Error m) = m"
| "message (TypeError m) = m"
| "message (RangeError m) = m"
| "message (SyntaxError m) = m"

text \<open>
  The values \<open>JSON.parse\<close> returns. A number is taken at the exact value of its decimal
  literal: the rounding of binary64 numbers (overflow to infinity, underflow to zero, inexact
  products) is not modelled. An object is the list of its own properties in creation order,
  with distinct keys.
\<close>

datatype json =
    JNull
  | JBool bool
  | JNum rat
  | JStr jsstring
  | JArr "json list"
  | JObj "(jsstring \<times> json) list"

text \<open>
  The results of arithmetic on values that need not be numbers: \<open>NaN\<close> and the two
  infinities beside the finite numbers.
\<close>

datatype jsnum = NaN | NegInf | Fin rat | PosInf

text \<open>\<open>x * 1000\<close>.\<close>

fun times1000 :: "jsnum \<Rightarrow> jsnum" where
  "times1000 (Fin r) = Fin (r * 1000)"
| "times1000 x = x"

text \<open>\<open>now >= x\<close> and \<open>now < x\<close> for a finite \<open>now\<close>: both are false on \<open>NaN\<close>.\<close>

fun js_ge :: "rat \<Rightarrow> jsnum \<Rightarrow> bool" where
  "js_ge n NaN = False"
| "js_ge n NegInf = True"
| "js_ge n (Fin r) = (r \<le> n)"
| "js_ge n PosInf = False"

fun js_lt :: "rat \<Rightarrow> jsnum \<Rightarrow> bool" where
  "js_lt n NaN = False"
| "js_lt n NegInf = False"
| "js_lt n (Fin r) = (n < r)"
| "js_lt n PosInf = True"

text \<open>\<open>x - now\<close> for a finite \<open>now\<close>.\<close>

fun js_minus :: "jsnum \<Rightarrow> rat \<Rightarrow> jsnum" where
  "js_minus (Fin r) n = Fin (r - n)"
| "js_minus x n = x"

text \<open>
  Reading a member of a value \<open>JSON.parse\<close> returned, \<open>v.k\<close> for a name \<open>k\<close> that no
  prototype defines (\<open>exp\<close>, \<open>nbf\<close>): \<open>null\<close> has no members and the read throws a
  \<open>TypeError\<close> (the message is V8's); an object yields its own property; every other value
  yields \<open>undefined\<close>, written \<open>None\<close>.
\<close>

fun member :: "json \<Rightarrow> jsstring \<Rightarrow> exn + json option" where
  "member JNull k =
     Inl (TypeError (lit ''Cannot read properties of null (reading '' @ [39] @ k @ [39] @ lit '')''))"
| "member (JObj kvs) k = Inr (map_of kvs k)"
| "member v k = Inr None"

text \<open>\<open>!v\<close> is \<open>\<not> truthy v\<close>.\<close>

fun truthy :: "json option \<Rightarrow> bool" where
  "truthy None = False"
| "truthy (Some JNull) = False"
| "truthy (Some (JBool b)) = b"
| "truthy (Some (JNum r)) = (r \<noteq> 0)"
| "truthy (Some (JStr s)) = (s \<noteq> [])"
| "truthy (Some (JArr xs)) = True"
| "truthy (Some (JObj kvs)) = True"

text \<open>
  \<open>ToNumber\<close>. On a number it is the identity and on \<open>undefined\<close> it is \<open>NaN\<close>. On any
  other value (a string, a boolean, \<open>null\<close>, an array, an object) it is the runtime's
  coercion, which can return any number and can throw; the model takes it as the
  parameter \<open>N\<close>, so that what is proved holds for every coercion.
\<close>

fun to_number :: "(json \<Rightarrow> exn + jsnum) \<Rightarrow> json option \<Rightarrow> exn + jsnum" where
  "to_number N None = Inr NaN"
| "to_number N (Some (JNum r)) = Inr (Fin r)"
| "to_number N (Some v) = N v"

section \<open>String operations\<close>

text \<open>The characters the regular expression class \<open>\s\<close> matches.\<close>

definition is_space :: "nat \<Rightarrow> bool" where
  "is_space c =
     (c \<in> {9, 10, 11, 12, 13, 32, 160, 5760, 8232, 8233, 8239, 8287, 12288, 65279}
      \<or> (8192 \<le> c \<and> c \<le> 8202))"

definition lower :: "nat \<Rightarrow> nat" where
  "lower c = (if 65 \<le> c \<and> c \<le> 90 then c + 32 else c)"

text \<open>
  \<open>token.replace(/^Bearer\s+/i, "")\<close>: the match is the word \<open>Bearer\<close> in any case, at
  the start of the string, with all the white space that follows it, of which there must be
  some. A string the expression does not match is returned as it is.
\<close>

definition strip_bearer :: "jsstring \<Rightarrow> jsstring" where
  "strip_bearer s =
     (if map lower (take 6 s) = lit ''bearer'' \<and> 6 < length s \<and> is_space (s ! 6)
      then dropWhile is_space (drop 6 s) else s)"

text \<open>\<open>s.split(d)\<close> for a separator \<open>d\<close> of one character: never an empty list.\<close>

fun split_on :: "nat \<Rightarrow> jsstring \<Rightarrow> jsstring list" where
  "split_on d [] = [[]]"
| "split_on d (c # cs) =
     (if c = d then [] # split_on d cs
      else (case split_on d cs of [] \<Rightarrow> [[c]] | p # ps \<Rightarrow> (c # p) # ps))"

text \<open>The decimal digits of a length, as a template literal prints it.\<close>

fun digits :: "nat \<Rightarrow> jsstring" where
  "digits n = (if n < 10 then [48 + n] else digits (n div 10) @ [48 + n mod 10])"

declare digits.simps [simp del]

section \<open>The runtime: \<open>Buffer\<close>, \<open>JSON.parse\<close> and \<open>Date\<close>\<close>

subsection \<open>\<open>Buffer.from(s, "base64").toString("utf-8")\<close>\<close>

text \<open>
  Node's base64 decoder does not fail. It reads of every code unit of the string the low
  byte only, so that U+0141 counts as \<open>A\<close>. It accepts the standard and the URL-safe
  alphabet, skips every byte outside them and stops at the first \<open>=\<close>; four characters
  give three bytes, a last group of three gives two and of two gives one.
\<close>

definition sextet :: "nat \<Rightarrow> nat option" where
  "sextet c =
     (if 65 \<le> c \<and> c \<le> 90 then Some (c - 65)
      else if 97 \<le> c \<and> c \<le> 122 then Some (c - 71)
      else if 48 \<le> c \<and> c \<le> 57 then Some (c + 4)
      else if c = 43 \<or> c = 45 then Some 62
      else if c = 47 \<or> c = 95 then Some 63
      else None)"

fun sextets :: "jsstring \<Rightarrow> nat list" where
  "sextets [] = []"
| "sextets (c # cs) =
     (if c mod 256 = 61 then []
      else (case sextet (c mod 256) of None \<Rightarrow> sextets cs | Some v \<Rightarrow> v # sextets cs))"

fun octets :: "nat list \<Rightarrow> nat list" where
  "octets (a # b # c # d # vs) =
     (a * 4 + b div 16) # (b mod 16 * 16 + c div 4) # (c mod 4 * 64 + d) # octets vs"
| "octets [a, b, c] = [a * 4 + b div 16, b mod 16 * 16 + c div 4]"
| "octets [a, b] = [a * 4 + b div 16]"
| "octets vs = []"

definition base64_bytes :: "jsstring \<Rightarrow> nat list" where
  "base64_bytes s = octets (sextets s)"

text \<open>
  Decoding bytes as UTF-8 does not fail either: a malformed sequence becomes U+FFFD
  (65533), and the byte that ended it is read again as the start of the next sequence.
  \<open>Cont n cp lo hi\<close> is the state inside a sequence: \<open>n\<close> bytes are still needed, \<open>cp\<close> is
  the code point so far, and the next byte must lie between \<open>lo\<close> and \<open>hi\<close>.
\<close>

datatype utf8_state = Start | Cont nat nat nat nat

fun utf8_lead :: "nat \<Rightarrow> nat list \<times> utf8_state" where
  "utf8_lead b =
     (if b < 128 then ([b], Start)
      else if 194 \<le> b \<and> b \<le> 223 then ([], Cont 1 (b - 192) 128 191)
      else if 224 \<le> b \<and> b \<le> 239 then
        ([], Cont 2 (b - 224) (if b = 224 then 160 else 128) (if b = 237 then 159 else 191))
      else if 240 \<le> b \<and> b \<le> 244 then
        ([], Cont 3 (b - 240) (if b = 240 then 144 else 128) (if b = 244 then 143 else 191))
      else ([65533], Start))"

fun utf8_points :: "utf8_state \<Rightarrow> nat list \<Rightarrow> nat list" where
  "utf8_points Start [] = []"
| "utf8_points (Cont n cp lo hi) [] = [65533]"
| "utf8_points Start (b # bs) = (case utf8_lead b of (out, st) \<Rightarrow> out @ utf8_points st bs)"
| "utf8_points (Cont n cp lo hi) (b # bs) =
     (if lo \<le> b \<and> b \<le> hi then
        (if n = 1 then (cp * 64 + (b - 128)) # utf8_points Start bs
         else utf8_points (Cont (n - 1) (cp * 64 + (b - 128)) 128 191) bs)
      else (case utf8_lead b of (out, st) \<Rightarrow> 65533 # out @ utf8_points st bs))"

text \<open>A code point above U+FFFF is a surrogate pair in the string.\<close>

fun utf16_units :: "nat \<Rightarrow> jsstring" where
  "utf16_units cp =
     (if cp < 65536 then [cp]
      else [55296 + (cp - 65536) div 1024, 56320 + (cp - 65536) mod 1024])"

definition utf8_string :: "nat list \<Rightarrow> jsstring" where
  "utf8_string bs = concat (map utf16_units (utf8_points Start bs))"

subsection \<open>\<open>JSON.parse\<close>\<close>

text \<open>
  The JSON grammar of ECMA-404, which \<open>JSON.parse\<close> accepts and nothing else: first the
  text is cut into tokens, then a pushdown automaton reads the tokens. The text of the
  \<open>SyntaxError\<close> differs between engines; the model has one text for all of them.
\<close>

datatype lexeme =
    TOpenObj | TCloseObj | TOpenArr | TCloseArr | TColon | TComma
  | TString jsstring
  | TAtom json

definition hex_digit :: "nat \<Rightarrow> nat option" where
  "hex_digit c =
     (if 48 \<le> c \<and> c \<le> 57 then Some (c - 48)
      else if 97 \<le> c \<and> c \<le> 102 then Some (c - 87)
      else if 65 \<le> c \<and> c \<le> 70 then Some (c - 55)
      else None)"

definition escape :: "nat \<Rightarrow> nat option" where
  "escape c =
     (if c = 34 \<or> c = 92 \<or> c = 47 then Some c
      else if c = 98 then Some 8
      else if c = 102 then Some 12
      else if c = 110 then Some 10
      else if c = 114 then Some 13
      else if c = 116 then Some 9
      else None)"

definition hex4 :: "nat \<Rightarrow> nat \<Rightarrow> nat \<Rightarrow> nat \<Rightarrow> nat option" where
  "hex4 a b c d =
     (case (hex_digit a, hex_digit b, hex_digit c, hex_digit d) of
        (Some w, Some x, Some y, Some z) \<Rightarrow> Some (((w * 16 + x) * 16 + y) * 16 + z)
      | _ \<Rightarrow> None)"

definition cons_unit :: "nat \<Rightarrow> (jsstring \<times> jsstring) option \<Rightarrow> (jsstring \<times> jsstring) option" where
  "cons_unit c r = map_option (\<lambda>(s, rest). (c # s, rest)) r"

fun scan_string :: "jsstring \<Rightarrow> (jsstring \<times> jsstring) option" where
  "scan_string [] = None"
| "scan_string (c # cs) =
     (if c = 34 then Some ([], cs)
      else if c = 92 then
        (case cs of
           [] \<Rightarrow> None
         | e # es \<Rightarrow>
             if e = 117 then
               (case es of
                  h1 # h2 # h3 # h4 # rest \<Rightarrow>
                    (case hex4 h1 h2 h3 h4 of
                       None \<Rightarrow> None
                     | Some u \<Rightarrow> cons_unit u (scan_string rest))
                | _ \<Rightarrow> None)
             else (case escape e of
                     None \<Rightarrow> None
                   | Some u \<Rightarrow> cons_unit u (scan_string es)))
      else if c < 32 then None
      else cons_unit c (scan_string cs))"

definition is_digit :: "nat \<Rightarrow> bool" where
  "is_digit c = (48 \<le> c \<and> c \<le> 57)"

definition decimal :: "jsstring \<Rightarrow> int" where
  "decimal ds = foldl (\<lambda>n c. 10 * n + (int c - 48)) 0 ds"

definition scale10 :: "int \<Rightarrow> int \<Rightarrow> rat" where
  "scale10 m k = (if 0 \<le> k then of_int m * 10 ^ nat k else of_int m / 10 ^ nat (- k))"

text \<open>The integer part of a number: an optional minus sign, then \<open>0\<close> or digits that do not start with \<open>0\<close>.\<close>

definition scan_int :: "jsstring \<Rightarrow> (bool \<times> jsstring \<times> jsstring) option" where
  "scan_int cs =
     (let neg = (take 1 cs = [45]);
          cs1 = (if neg then drop 1 cs else cs);
          ip = takeWhile is_digit cs1
      in if ip = [] \<or> (1 < length ip \<and> hd ip = 48) then None
         else Some (neg, ip, dropWhile is_digit cs1))"

text \<open>The optional fraction: a point and at least one digit.\<close>

definition scan_frac :: "jsstring \<Rightarrow> (jsstring \<times> jsstring) option" where
  "scan_frac cs =
     (if take 1 cs = [46] then
        (let fp = takeWhile is_digit (drop 1 cs)
         in if fp = [] then None else Some (fp, dropWhile is_digit (drop 1 cs)))
      else Some ([], cs))"

text \<open>The optional exponent: \<open>e\<close> or \<open>E\<close>, an optional sign and at least one digit.\<close>

definition scan_exp :: "jsstring \<Rightarrow> (int \<times> jsstring) option" where
  "scan_exp cs =
     (if take 1 cs = [101] \<or> take 1 cs = [69] then
        (let cs1 = drop 1 cs;
             eneg = (take 1 cs1 = [45]);
             cs2 = (if eneg \<or> take 1 cs1 = [43] then drop 1 cs1 else cs1);
             ep = takeWhile is_digit cs2
         in if ep = [] then None
            else Some (if eneg then - decimal ep else decimal ep, dropWhile is_digit cs2))
      else Some (0, cs))"

definition scan_number :: "jsstring \<Rightarrow> (rat \<times> jsstring) option" where
  "scan_number cs =
     (case scan_int cs of
        None \<Rightarrow> None
      | Some (neg, ip, cs1) \<Rightarrow>
          (case scan_frac cs1 of
             None \<Rightarrow> None
           | Some (fp, cs2) \<Rightarrow>
               (case scan_exp cs2 of
                  None \<Rightarrow> None
                | Some (e, cs3) \<Rightarrow>
                    Some (scale10 ((if neg then - 1 else 1) * decimal (ip @ fp))
                            (e - int (length fp)), cs3))))"

definition is_json_space :: "nat \<Rightarrow> bool" where
  "is_json_space c = (c = 32 \<or> c = 9 \<or> c = 10 \<or> c = 13)"

lemma scan_string_shorter: "scan_string cs = Some (s, rest) \<Longrightarrow> length rest < length cs"
proof (induction cs arbitrary: s rest rule: scan_string.induct)
  case 1
  then show ?case by simp
next
  case (2 c cs)
  then show ?case
    by (auto simp: cons_unit_def split: if_splits list.splits option.splits) fastforce+
qed

lemma dropWhile_shorter: "takeWhile P xs \<noteq> [] \<Longrightarrow> length (dropWhile P xs) < length xs"
  by (cases xs) (auto simp: le_imp_less_Suc length_dropWhile_le split: if_splits)

lemma scan_int_shorter: "scan_int cs = Some (neg, ip, rest) \<Longrightarrow> length rest < length cs"
proof -
  assume a: "scan_int cs = Some (neg, ip, rest)"
  define cs1 where "cs1 = (if take 1 cs = [45] then drop 1 cs else cs)"
  from a have "takeWhile is_digit cs1 \<noteq> []" and "rest = dropWhile is_digit cs1"
    by (simp_all add: scan_int_def Let_def cs1_def split: if_splits)
  then have "length rest < length cs1"
    by (simp add: dropWhile_shorter)
  moreover have "length cs1 \<le> length cs"
    by (simp add: cs1_def)
  ultimately show ?thesis by simp
qed

lemma scan_frac_shorter: "scan_frac cs = Some (fp, rest) \<Longrightarrow> length rest \<le> length cs"
  using length_dropWhile_le [of is_digit "drop 1 cs"]
  by (auto simp: scan_frac_def Let_def split: if_splits)

lemma scan_exp_shorter: "scan_exp cs = Some (e, rest) \<Longrightarrow> length rest \<le> length cs"
proof -
  assume a: "scan_exp cs = Some (e, rest)"
  define cs2 where
    "cs2 = (if take 1 (drop 1 cs) = [45] \<or> take 1 (drop 1 cs) = [43] then drop 1 (drop 1 cs)
            else drop 1 cs)"
  from a have "rest = cs \<or> rest = dropWhile is_digit cs2"
    by (simp add: scan_exp_def Let_def cs2_def split: if_splits)
  moreover have "length (dropWhile is_digit cs2) \<le> length cs2"
    by (rule length_dropWhile_le)
  moreover have "length cs2 \<le> length cs"
    by (simp add: cs2_def)
  ultimately show ?thesis by auto
qed

lemma scan_number_shorter:
  assumes "scan_number cs = Some (r, rest)"
  shows "length rest < length cs"
proof -
  from assms obtain neg ip cs1 fp cs2 e where
    1: "scan_int cs = Some (neg, ip, cs1)" and
    2: "scan_frac cs1 = Some (fp, cs2)" and
    3: "scan_exp cs2 = Some (e, rest)"
    by (auto simp: scan_number_def split: option.splits)
  from scan_int_shorter [OF 1] scan_frac_shorter [OF 2] scan_exp_shorter [OF 3]
  show ?thesis by simp
qed

function lex :: "jsstring \<Rightarrow> lexeme list option" where
  "lex [] = Some []"
| "lex (c # cs) =
     (if is_json_space c then lex cs
      else if c = 123 then map_option ((#) TOpenObj) (lex cs)
      else if c = 125 then map_option ((#) TCloseObj) (lex cs)
      else if c = 91 then map_option ((#) TOpenArr) (lex cs)
      else if c = 93 then map_option ((#) TCloseArr) (lex cs)
      else if c = 58 then map_option ((#) TColon) (lex cs)
      else if c = 44 then map_option ((#) TComma) (lex cs)
      else if c = 34 then
        (case scan_string cs of
           None \<Rightarrow> None
         | Some (s, rest) \<Rightarrow> map_option ((#) (TString s)) (lex rest))
      else if c = 45 \<or> is_digit c then
        (case scan_number (c # cs) of
           None \<Rightarrow> None
         | Some (r, rest) \<Rightarrow> map_option ((#) (TAtom (JNum r))) (lex rest))
      else if take 4 (c # cs) = lit ''null'' then map_option ((#) (TAtom JNull)) (lex (drop 3 cs))
      else if take 4 (c # cs) = lit ''true'' then map_option ((#) (TAtom (JBool True))) (lex (drop 3 cs))
      else if take 5 (c # cs) = lit ''false'' then map_option ((#) (TAtom (JBool False))) (lex (drop 4 cs))
      else None)"
  by pat_completeness auto
termination
  by (relation "measure length") (auto dest: scan_string_shorter scan_number_shorter intro: le_imp_less_Suc)


datatype frame = InArr "json list" | InObj "(jsstring \<times> json) list" jsstring

datatype mode =
    WantValue
  | WantValueOrClose
  | WantKeyOrClose
  | WantKey
  | WantColon
  | AfterElem
  | AfterProp
  | Finished json

fun set_prop :: "jsstring \<Rightarrow> json \<Rightarrow> (jsstring \<times> json) list \<Rightarrow> (jsstring \<times> json) list" where
  "set_prop k v [] = [(k, v)]"
| "set_prop k v ((k', v') # kvs) = (if k' = k then (k, v) # kvs else (k', v') # set_prop k v kvs)"

fun deliver :: "json \<Rightarrow> frame list \<Rightarrow> mode \<times> frame list" where
  "deliver v [] = (Finished v, [])"
| "deliver v (InArr xs # st) = (AfterElem, InArr (xs @ [v]) # st)"
| "deliver v (InObj kvs k # st) = (AfterProp, InObj (set_prop k v kvs) [] # st)"

fun close_frame :: "frame list \<Rightarrow> (mode \<times> frame list) option" where
  "close_frame [] = None"
| "close_frame (InArr xs # st) = Some (deliver (JArr xs) st)"
| "close_frame (InObj kvs k # st) = Some (deliver (JObj kvs) st)"

fun accepts_value :: "mode \<Rightarrow> bool" where
  "accepts_value WantValue = True"
| "accepts_value WantValueOrClose = True"
| "accepts_value m = False"

fun set_key :: "jsstring \<Rightarrow> frame list \<Rightarrow> (mode \<times> frame list) option" where
  "set_key k (InObj kvs k0 # st) = Some (WantColon, InObj kvs k # st)"
| "set_key k st = None"

fun step :: "mode \<times> frame list \<Rightarrow> lexeme \<Rightarrow> (mode \<times> frame list) option" where
  "step (m, st) (TAtom v) = (if accepts_value m then Some (deliver v st) else None)"
| "step (m, st) (TString s) =
     (if accepts_value m then Some (deliver (JStr s) st)
      else if m = WantKey \<or> m = WantKeyOrClose then set_key s st
      else None)"
| "step (m, st) TOpenArr = (if accepts_value m then Some (WantValueOrClose, InArr [] # st) else None)"
| "step (m, st) TOpenObj = (if accepts_value m then Some (WantKeyOrClose, InObj [] [] # st) else None)"
| "step (m, st) TCloseArr =
     (case st of
        InArr xs # st' \<Rightarrow> if m = WantValueOrClose \<or> m = AfterElem then close_frame st else None
      | _ \<Rightarrow> None)"
| "step (m, st) TCloseObj =
     (case st of
        InObj kvs k # st' \<Rightarrow> if m = WantKeyOrClose \<or> m = AfterProp then close_frame st else None
      | _ \<Rightarrow> None)"
| "step (m, st) TComma =
     (if m = AfterElem then Some (WantValue, st)
      else if m = AfterProp then Some (WantKey, st)
      else None)"
| "step (m, st) TColon = (if m = WantColon then Some (WantValue, st) else None)"

fun run :: "mode \<times> frame list \<Rightarrow> lexeme list \<Rightarrow> json option" where
  "run (Finished v, st) [] = Some v"
| "run (m, st) [] = None"
| "run c (t # ts) = (case step c t of None \<Rightarrow> None | Some c' \<Rightarrow> run c' ts)"

definition JSON_parse :: "jsstring \<Rightarrow> exn + json" where
  "JSON_parse text =
     (case lex text of
        None \<Rightarrow> Inl (SyntaxError (lit ''Unexpected token or end of JSON input''))
      | Some ts \<Rightarrow>
          (case run (WantValue, []) ts of
             None \<Rightarrow> Inl (SyntaxError (lit ''Unexpected token or end of JSON input''))
           | Some v \<Rightarrow> Inr v))"

subsection \<open>\<open>new Date(ms).toISOString()\<close>\<close>

text \<open>A number \<open>n\<close> in decimal, padded with zeros to \<open>w\<close> digits.\<close>

definition pad :: "nat \<Rightarrow> int \<Rightarrow> jsstring" where
  "pad w n = replicate (w - length (digits (nat n))) 48 @ digits (nat n)"

text \<open>The year, month and day of a day number counted from 1 January 1970.\<close>

definition civil :: "int \<Rightarrow> int \<times> int \<times> int" where
  "civil days =
     (let z = days + 719468;
          era = z div 146097;
          doe = z mod 146097;
          yoe = (doe - doe div 1460 + doe div 36524 - doe div 146096) div 365;
          doy = doe - (365 * yoe + yoe div 4 - yoe div 100);
          mp = (5 * doy + 2) div 153;
          d = doy - (153 * mp + 2) div 5 + 1;
          m = (if mp < 10 then mp + 3 else mp - 9);
          y = yoe + era * 400 + (if m \<le> 2 then 1 else 0)
      in (y, m, d))"

definition iso_text :: "int \<Rightarrow> jsstring" where
  "iso_text t =
     (let (y, m, d) = civil (t div 86400000);
          ms = t mod 86400000;
          year = (if 0 \<le> y \<and> y \<le> 9999 then pad 4 y
                  else (if y < 0 then [45] else [43]) @ pad 6 (abs y))
      in year @ [45] @ pad 2 m @ [45] @ pad 2 d @ [84]
         @ pad 2 (ms div 3600000) @ [58] @ pad 2 (ms div 60000 mod 60) @ [58]
         @ pad 2 (ms div 1000 mod 60) @ [46] @ pad 3 (ms mod 1000) @ [90])"

text \<open>
  \<open>new Date(x)\<close> for a number \<open>x\<close> keeps the integer part of \<open>x\<close> when \<open>x\<close> is finite and at
  most 8.64e15 in absolute value, and is an invalid date otherwise; \<open>toISOString\<close> throws
  a \<open>RangeError\<close> on an invalid date.
\<close>

fun toISOString :: "jsnum \<Rightarrow> exn + jsstring" where
  "toISOString (Fin r) =
     (if 8640000000000000 < abs r then Inl (RangeError (lit ''Invalid time value''))
      else Inr (iso_text (if 0 \<le> r then \<lfloor>r\<rfloor> else \<lceil>r\<rceil>)))"
| "toISOString x = Inl (RangeError (lit ''Invalid time value''))"

section \<open>Token claims: \<open>src/client/lib/auth.ts\<close>\<close>

text \<open>
  The claims of a token are the value \<open>JSON.parse\<close> returned for its payload; the cast
  \<open>as JWTClaims\<close> checks nothing. Each function that calls \<open>Date.now()\<close> takes what the
  call returns as an argument, the milliseconds elapsed since the epoch, and each function
  that multiplies a claim takes the coercion \<open>N\<close> of values that are not numbers.
\<close>

text \<open>
  \<open>base64UrlDecode\<close>: the URL-safe characters are replaced by the standard ones, the
  string is padded with \<open>=\<close> to a length that is a multiple of four, and the runtime
  decodes it.
\<close>

definition to_base64 :: "jsstring \<Rightarrow> jsstring" where
  "to_base64 input =
     (let base64 = map (\<lambda>c. if c = 45 then 43 else if c = 95 then 47 else c) input;
          padding = length base64 mod 4
      in if padding \<noteq> 0 then base64 @ replicate (4 - padding) 61 else base64)"

definition base64UrlDecode :: "jsstring \<Rightarrow> jsstring" where
  "base64UrlDecode input = utf8_string (base64_bytes (to_base64 input))"

definition parseJWTToken :: "jsstring \<Rightarrow> exn + json" where
  "parseJWTToken token =
     (let parts = split_on 46 token
      in if length parts \<noteq> 3 then
           Inl (Error (lit ''Invalid token format: expected 3 parts, got '' @ digits (length parts)))
         else
           (let payload = parts ! 1
            in if payload = [] then Inl (Error (lit ''Invalid token format: missing payload''))
               else (case JSON_parse (base64UrlDecode payload) of
                       Inl err \<Rightarrow>
                         Inl (Error (lit ''Failed to parse token payload: '' @ message err))
                     | Inr decoded \<Rightarrow> Inr decoded)))"

definition isTokenExpired :: "(json \<Rightarrow> exn + jsnum) \<Rightarrow> nat \<Rightarrow> json \<Rightarrow> exn + bool" where
  "isTokenExpired N now claims =
     (case member claims (lit ''exp'') of
        Inl e \<Rightarrow> Inl e
      | Inr ex \<Rightarrow>
          if \<not> truthy ex then Inr False
          else (case to_number N ex of
                  Inl e \<Rightarrow> Inl e
                | Inr x \<Rightarrow> Inr (js_ge (of_nat now) (times1000 x))))"

definition isTokenNotYetValid :: "(json \<Rightarrow> exn + jsnum) \<Rightarrow> nat \<Rightarrow> json \<Rightarrow> exn + bool" where
  "isTokenNotYetValid N now claims =
     (case member claims (lit ''nbf'') of
        Inl e \<Rightarrow> Inl e
      | Inr nb \<Rightarrow>
          if \<not> truthy nb then Inr False
          else (case to_number N nb of
                  Inl e \<Rightarrow> Inl e
                | Inr x \<Rightarrow> Inr (js_lt (of_nat now) (times1000 x))))"

definition tokenExpiresIn :: "(json \<Rightarrow> exn + jsnum) \<Rightarrow> nat \<Rightarrow> json \<Rightarrow> exn + jsnum" where
  "tokenExpiresIn N now claims =
     (case member claims (lit ''exp'') of
        Inl e \<Rightarrow> Inl e
      | Inr ex \<Rightarrow>
          if \<not> truthy ex then Inr (Fin 0)
          else (case to_number N ex of
                  Inl e \<Rightarrow> Inl e
                | Inr x \<Rightarrow> Inr (js_minus (times1000 x) (of_nat now))))"

text \<open>
  \<open>claims.exp ? new Date(claims.exp * 1000).toISOString() : "unknown"\<close>, for the member
  named \<open>k\<close>.
\<close>

definition date_text :: "(json \<Rightarrow> exn + jsnum) \<Rightarrow> json \<Rightarrow> jsstring \<Rightarrow> exn + jsstring" where
  "date_text N claims k =
     (case member claims k of
        Inl e \<Rightarrow> Inl e
      | Inr v \<Rightarrow>
          if truthy v then
            (case to_number N v of
               Inl e \<Rightarrow> Inl e
             | Inr x \<Rightarrow> toISOString (times1000 x))
          else Inr (lit ''unknown''))"

record TokenValidation =
  valid :: bool
  error :: "jsstring option"
  claims :: "json option"

text \<open>
  \<open>validateAuthToken\<close>. \<open>t1\<close> is the clock as \<open>isTokenExpired\<close> reads it and \<open>t2\<close> the
  clock as \<open>isTokenNotYetValid\<close> reads it. Only the call of \<open>parseJWTToken\<close> stands in a
  \<open>try\<close> block: whatever is thrown after it leaves the function.
\<close>

definition validateAuthToken ::
  "(json \<Rightarrow> exn + jsnum) \<Rightarrow> nat \<Rightarrow> nat \<Rightarrow> jsstring \<Rightarrow> exn + TokenValidation" where
  "validateAuthToken N t1 t2 token =
     (if token = [] then
        Inr \<lparr>valid = False, error = Some (lit ''Auth token is empty''), claims = None\<rparr>
      else
        (let actualToken = strip_bearer token
         in if 46 \<notin> set actualToken then
              (if length actualToken < 10 then
                 Inr \<lparr>valid = False,
                      error = Some (lit ''Token appears too short (length: ''
                                    @ digits (length actualToken) @ lit '')''),
                      claims = None\<rparr>
               else Inr \<lparr>valid = True, error = None, claims = None\<rparr>)
            else
              (case parseJWTToken actualToken of
                 Inl err \<Rightarrow> Inr \<lparr>valid = False, error = Some (message err), claims = None\<rparr>
               | Inr cl \<Rightarrow>
                   (case isTokenExpired N t1 cl of
                      Inl e \<Rightarrow> Inl e
                    | Inr True \<Rightarrow>
                        (case date_text N cl (lit ''exp'') of
                           Inl e \<Rightarrow> Inl e
                         | Inr expDate \<Rightarrow>
                             Inr \<lparr>valid = False,
                                  error = Some (lit ''Token expired at '' @ expDate),
                                  claims = Some cl\<rparr>)
                    | Inr False \<Rightarrow>
                        (case isTokenNotYetValid N t2 cl of
                           Inl e \<Rightarrow> Inl e
                         | Inr True \<Rightarrow>
                             (case date_text N cl (lit ''nbf'') of
                                Inl e \<Rightarrow> Inl e
                              | Inr nbfDate \<Rightarrow>
                                  Inr \<lparr>valid = False,
                                       error = Some (lit ''Token not yet valid until '' @ nbfDate),
                                       claims = Some cl\<rparr>)
                         | Inr False \<Rightarrow>
                             Inr \<lparr>valid = True, error = None, claims = Some cl\<rparr>)))))"

record TokenInfo =
  info_claims :: json
  isExpired :: bool
  expiresIn :: jsnum

text \<open>
  \<open>getTokenInfo\<close> has no \<open>try\<close> block. \<open>t1\<close> is the clock as \<open>isTokenExpired\<close> reads it
  and \<open>t2\<close> the clock as \<open>tokenExpiresIn\<close> reads it.
\<close>

definition getTokenInfo ::
  "(json \<Rightarrow> exn + jsnum) \<Rightarrow> nat \<Rightarrow> nat \<Rightarrow> jsstring \<Rightarrow> exn + TokenInfo" where
  "getTokenInfo N t1 t2 token =
     (let actualToken = strip_bearer token
      in case parseJWTToken actualToken of
           Inl e \<Rightarrow> Inl e
         | Inr cl \<Rightarrow>
             (case isTokenExpired N t1 cl of
                Inl e \<Rightarrow> Inl e
              | Inr ex \<Rightarrow>
                  (case tokenExpiresIn N t2 cl of
                     Inl e \<Rightarrow> Inl e
                   | Inr left \<Rightarrow>
                       Inr \<lparr>info_claims = cl, isExpired = ex, expiresIn = left\<rparr>)))"

section \<open>Configuration: \<open>src/client/lib/config.ts\<close>\<close>

datatype AuthScheme = Bearer | Token

datatype HttpVersion = Http1_1 | Http2

text \<open>A logger is \<open>noopLogger\<close> or an object of the caller's, known by a number.\<close>

datatype Logger = noopLogger | CallerLogger nat

text \<open>
  Every field of \<open>ClientConfig\<close> is optional: \<open>None\<close> is a field that is not supplied. The
  headers are the own properties of the record, in order.
\<close>

record ClientConfig =
  baseUrl :: "jsstring option"
  authToken :: "jsstring option"
  authScheme :: "AuthScheme option"
  timeout :: "int option"
  httpVersion :: "HttpVersion option"
  headers :: "(jsstring \<times> jsstring) list option"
  logger :: "Logger option"

record Defaults =
  default_baseUrl :: jsstring
  default_timeout :: int
  default_httpVersion :: HttpVersion
  default_authScheme :: AuthScheme

definition DEFAULT_CONFIG :: Defaults where
  "DEFAULT_CONFIG =
     \<lparr>default_baseUrl = lit ''https://api.admiral.io'',
      default_timeout = 30000,
      default_httpVersion = Http2,
      default_authScheme = Bearer\<rparr>"

text \<open>
  What \<open>resolveConfig\<close> returns has the fields of \<open>ClientConfig\<close>, all but the token and
  the headers now required.
\<close>

record ResolvedConfig =
  resolved_baseUrl :: jsstring
  resolved_authToken :: "jsstring option"
  resolved_authScheme :: AuthScheme
  resolved_timeout :: int
  resolved_httpVersion :: HttpVersion
  resolved_headers :: "(jsstring \<times> jsstring) list option"
  resolved_logger :: Logger

text \<open>\<open>a ?? b\<close>.\<close>

fun nullish :: "'a option \<Rightarrow> 'a \<Rightarrow> 'a" where
  "nullish None b = b"
| "nullish (Some a) b = a"

text \<open>\<open>s.replace(/\/$/, "")\<close>: one \<open>/\<close> at the end of the string is removed.\<close>

definition strip_slash :: "jsstring \<Rightarrow> jsstring" where
  "strip_slash s = (if s \<noteq> [] \<and> last s = 47 then butlast s else s)"

text \<open>
  \<open>resolveConfig\<close>. \<open>new URL(baseUrl)\<close> is the runtime's URL parser, which throws on a
  string it cannot parse; the model takes it as the parameter \<open>url_parses\<close>, true where the
  parser returns.
\<close>

definition resolveConfig :: "(jsstring \<Rightarrow> bool) \<Rightarrow> ClientConfig \<Rightarrow> exn + ResolvedConfig" where
  "resolveConfig url_parses config =
     (let base = nullish (baseUrl config) (default_baseUrl DEFAULT_CONFIG)
      in if \<not> url_parses base then Inl (Error (lit ''Invalid baseUrl: '' @ base))
         else Inr \<lparr>resolved_baseUrl = strip_slash base,
                   resolved_authToken = authToken config,
                   resolved_authScheme = nullish (authScheme config) (default_authScheme DEFAULT_CONFIG),
                   resolved_timeout = nullish (timeout config) (default_timeout DEFAULT_CONFIG),
                   resolved_httpVersion = nullish (httpVersion config) (default_httpVersion DEFAULT_CONFIG),
                   resolved_headers = headers config,
                   resolved_logger = nullish (logger config) noopLogger\<rparr>)"

section \<open>Transport: \<open>src/client/lib/transport.ts\<close>\<close>

text \<open>
  An interceptor is known by what it does to a request: the timeout interceptor aborts it
  after so many milliseconds, the headers interceptor sets the given headers, and the
  authorization interceptor sets the header \<open>Authorization\<close> to the given text.
\<close>

datatype Interceptor =
    TimeoutInterceptor int
  | HeadersInterceptor "(jsstring \<times> jsstring) list"
  | AuthInterceptor jsstring

definition createAuthInterceptor :: "jsstring \<Rightarrow> AuthScheme \<Rightarrow> Interceptor" where
  "createAuthInterceptor tok scheme =
     (let prefix = (if scheme = Token then lit ''Token'' else lit ''Bearer'')
      in AuthInterceptor (prefix @ [32] @ tok))"

definition createHeadersInterceptor :: "(jsstring \<times> jsstring) list \<Rightarrow> Interceptor" where
  "createHeadersInterceptor hs = HeadersInterceptor hs"

definition createTimeoutInterceptor :: "int \<Rightarrow> Interceptor" where
  "createTimeoutInterceptor timeoutMs = TimeoutInterceptor timeoutMs"

text \<open>
  A transport is known by the options \<open>createConnectTransport\<close> was called with.
\<close>

record Transport =
  transport_baseUrl :: jsstring
  transport_httpVersion :: HttpVersion
  interceptors :: "Interceptor list"

text \<open>A string is truthy when it is there and not empty.\<close>

fun present :: "jsstring option \<Rightarrow> bool" where
  "present None = False"
| "present (Some s) = (s \<noteq> [])"

definition createTransport :: "(jsstring \<Rightarrow> bool) \<Rightarrow> ClientConfig \<Rightarrow> exn + Transport" where
  "createTransport url_parses config =
     (case resolveConfig url_parses config of
        Inl e \<Rightarrow> Inl e
      | Inr resolved \<Rightarrow>
          (let is0 = [createTimeoutInterceptor (resolved_timeout resolved)];
               is1 = (case resolved_headers resolved of
                        None \<Rightarrow> is0
                      | Some hs \<Rightarrow>
                          if 0 < length hs then is0 @ [createHeadersInterceptor hs] else is0);
               is2 = (case resolved_authToken resolved of
                        None \<Rightarrow> is1
                      | Some tok \<Rightarrow>
                          if tok \<noteq> [] then
                            is1 @ [createAuthInterceptor tok (resolved_authScheme resolved)]
                          else is1)
           in Inr \<lparr>transport_baseUrl = resolved_baseUrl resolved,
                     transport_httpVersion = resolved_httpVersion resolved,
                     interceptors = is2\<rparr>))"

section \<open>Client: \<open>src/client/client.ts\<close>\<close>

text \<open>
  The twelve services, one for each accessor of the client: \<open>client.cluster\<close> is the accessor
  of \<open>Cluster\<close>, and so on in the order of the source.
\<close>

datatype Service =
    Cluster | Runner | User | Application | Component | Connection
  | Deployment | Environment | Healthcheck | Source | State | Variable

text \<open>
  What \<open>createConnectClient(api, transport)\<close> returns: a new object each time, known by its
  service, its transport, and a number that tells it from every other object.
\<close>

record ServiceClient =
  service :: Service
  over :: Transport
  ident :: nat

text \<open>
  The client and the variables its methods close over: the configuration, the transport,
  and one variable for each service (\<open>_cluster\<close>, \<open>_runner\<close>, ...), \<open>None\<close> while it is
  \<open>undefined\<close>. \<open>created\<close> counts the service clients constructed so far.
\<close>

record Client =
  transport :: Transport
  config :: ClientConfig
  handles :: "Service \<Rightarrow> ServiceClient option"
  created :: nat

text \<open>
  \<open>createClient\<close>. Before it returns, the source calls \<open>debug\<close> of the resolved logger;
  what a caller's logger does there is left out, so that the clients of the source are among
  the clients here.
\<close>

definition createClient :: "(jsstring \<Rightarrow> bool) \<Rightarrow> ClientConfig \<Rightarrow> exn + Client" where
  "createClient url_parses cfg =
     (case resolveConfig url_parses cfg of
        Inl e \<Rightarrow> Inl e
      | Inr resolved \<Rightarrow>
          (case createTransport url_parses cfg of
             Inl e \<Rightarrow> Inl e
           | Inr tr \<Rightarrow>
               Inr \<lparr>transport = tr, config = cfg, handles = (\<lambda>s. None), created = 0\<rparr>))"

text \<open>
  An accessor, \<open>get cluster() { if (!_cluster) { _cluster = createConnectClient(ClusterAPI,
  transport); } return _cluster; }\<close> and the eleven like it: the service client returned and
  the client after the call.
\<close>

definition access :: "Service \<Rightarrow> Client \<Rightarrow> ServiceClient \<times> Client" where
  "access s c =
     (case handles c s of
        Some h \<Rightarrow> (h, c)
      | None \<Rightarrow>
          (let h = \<lparr>service = s, over = transport c, ident = created c\<rparr>
           in (h, c\<lparr>handles := (handles c)(s \<mapsto> h), created := Suc (created c)\<rparr>)))"

text \<open>A run of accesses, in order: the service clients returned and the client after them.\<close>

fun accesses :: "Service list \<Rightarrow> Client \<Rightarrow> ServiceClient list \<times> Client" where
  "accesses [] c = ([], c)"
| "accesses (s # ss) c =
     (case access s c of (h, c') \<Rightarrow> (case accesses ss c' of (hs, c'') \<Rightarrow> (h # hs, c'')))"

text \<open>The methods \<open>validateToken()\<close> and \<open>getTokenInfo()\<close> of the client.\<close>

definition validateToken ::
  "(json \<Rightarrow> exn + jsnum) \<Rightarrow> nat \<Rightarrow> nat \<Rightarrow> Client \<Rightarrow> exn + TokenValidation" where
  "validateToken N t1 t2 c =
     (case authToken (config c) of
        None \<Rightarrow> Inr \<lparr>valid = False, error = Some (lit ''No auth token configured''), claims = None\<rparr>
      | Some tok \<Rightarrow>
          if tok = [] then
            Inr \<lparr>valid = False, error = Some (lit ''No auth token configured''), claims = None\<rparr>
          else validateAuthToken N t1 t2 tok)"

definition client_getTokenInfo ::
  "(json \<Rightarrow> exn + jsnum) \<Rightarrow> nat \<Rightarrow> nat \<Rightarrow> Client \<Rightarrow> exn + TokenInfo option" where
  "client_getTokenInfo N t1 t2 c =
     (case authToken (config c) of
        None \<Rightarrow> Inr None
      | Some tok \<Rightarrow>
          if tok = [] then Inr None
          else (case getTokenInfo N t1 t2 tok of
                  Inl e \<Rightarrow> Inr None
                | Inr info \<Rightarrow> Inr (Some info)))"

section \<open>The specification's reading, examples and the client's invariant\<close>



text \<open>The JSON values that are objects.\<close>

fun is_object :: "json \<Rightarrow> bool" where
  "is_object (JObj kvs) = True"
| "is_object v = False"

text \<open>
  The specification's words for the prefix: a leading \<open>Bearer\<close> and one space, in any
  case, is removed.
\<close>

definition strip_bearer_space :: "jsstring \<Rightarrow> jsstring" where
  "strip_bearer_space s = (if map lower (take 7 s) = lit ''bearer '' then drop 7 s else s)"

text \<open>A configuration for the examples.\<close>

definition example_config :: ClientConfig where
  "example_config =
     \<lparr>baseUrl = Some (lit ''https://custom.api.io/''), authToken = Some (lit ''test-token''),
      authScheme = Some Token, timeout = None, httpVersion = None,
      headers = Some [(lit ''X-Custom-Header'', lit ''custom-value'')], logger = None\<rparr>"

text \<open>A configuration with the token \<open>a.bnVsbA.c\<close> and nothing else.\<close>

definition null_payload_config :: ClientConfig where
  "null_payload_config =
     \<lparr>baseUrl = None, authToken = Some (lit ''a.bnVsbA.c''), authScheme = None, timeout = None,
      httpVersion = None, headers = None, logger = None\<rparr>"

text \<open>
  What holds of a client between calls: every variable that is set holds a service client
  of its own service over the client's transport, numbered below the count of service
  clients constructed; no two variables hold the same number; and the count is the number
  of variables that are set.
\<close>

definition consistent :: "Client \<Rightarrow> bool" where
  "consistent c \<longleftrightarrow>
     (\<forall>s h. handles c s = Some h \<longrightarrow>
        service h = s \<and> over h = transport c \<and> ident h < created c)
     \<and> (\<forall>s s' h h'. handles c s = Some h \<and> handles c s' = Some h' \<and> ident h = ident h' \<longrightarrow> s = s')
     \<and> finite (dom (handles c))
     \<and> created c = card (dom (handles c))"

section \<open>Expiration and not-before\<close>






section \<open>Parsing a token\<close>

lemma lit_eq_Nil [simp]: "lit s = [] \<longleftrightarrow> s = []"
  by (simp add: lit_def)

text \<open>An empty payload decodes to the empty text, which is not JSON.\<close>

lemma decode_empty:
  "JSON_parse (base64UrlDecode []) = Inl (SyntaxError (lit ''Unexpected token or end of JSON input''))"
  by code_simp

lemma to_base64_eq:
  "to_base64 p = map (\<lambda>c. if c = 45 then 43 else if c = 95 then 47 else c) p
                 @ replicate ((4 - length p mod 4) mod 4) 61"
  by (simp add: to_base64_def Let_def)

lemma pad_to_four: "(n + (4 - n mod 4) mod 4) mod 4 = (0::nat)"
proof -
  have cases: "n mod 4 = 0 \<or> n mod 4 = 1 \<or> n mod 4 = 2 \<or> n mod 4 = 3"
    by linarith
  have shift: "(n + k) mod 4 = (n mod 4 + k) mod 4" for k
    by (simp add: mod_add_left_eq)
  from cases show ?thesis
    unfolding shift by (elim disjE) simp_all
qed

lemma to_base64_length: "length (to_base64 p) mod 4 = 0"
  by (simp add: to_base64_eq pad_to_four)

lemma parseJWTToken_parts:
  "length (split_on 46 tok) \<noteq> 3 \<Longrightarrow>
     parseJWTToken tok =
       Inl (Error (lit ''Invalid token format: expected 3 parts, got ''
                   @ digits (length (split_on 46 tok))))"
  by (simp add: parseJWTToken_def)

lemma parseJWTToken_payload:
  "length (split_on 46 tok) = 3 \<Longrightarrow>
     parseJWTToken tok =
       (case JSON_parse (base64UrlDecode (split_on 46 tok ! 1)) of
          Inr v \<Rightarrow> Inr v
        | Inl e \<Rightarrow>
            Inl (Error (if split_on 46 tok ! 1 = []
                        then lit ''Invalid token format: missing payload''
                        else lit ''Failed to parse token payload: '' @ message e)))"
  by (simp add: parseJWTToken_def Let_def decode_empty split: sum.splits)

lemma parseJWTToken_isl:
  "isl (parseJWTToken tok) \<longleftrightarrow>
     length (split_on 46 tok) \<noteq> 3 \<or> isl (JSON_parse (base64UrlDecode (split_on 46 tok ! 1)))"
proof (cases "length (split_on 46 tok) = 3")
  case True
  then show ?thesis
    by (simp add: parseJWTToken_payload split: sum.splits)
next
  case False
  then show ?thesis
    by (simp add: parseJWTToken_parts)
qed

text \<open>
  C4, amended. For every token, \<open>parseJWTToken\<close> throws exactly when the split on \<open>.\<close>
  does not give three segments or \<open>JSON.parse\<close> fails on the decoded second segment (the
  runtime's decoder itself never fails). With another number of segments the error names
  that number; with three, the error is \<open>Failed to parse token payload: \<close> and the
  parser's message, or \<open>Invalid token format: missing payload\<close> when the segment is empty.
  When nothing is thrown the result is the value \<open>JSON.parse\<close> returned, whatever JSON
  value that is: the cast \<open>as JWTClaims\<close> checks nothing. The decoder is given the segment
  with \<open>-\<close> replaced by \<open>+\<close> and \<open>_\<close> by \<open>/\<close>, padded with \<open>=\<close> to a length that is a
  multiple of four.
\<close>

theorem parseJWTToken_throws:
  "(isl (parseJWTToken tok) \<longleftrightarrow>
      length (split_on 46 tok) \<noteq> 3
      \<or> isl (JSON_parse (base64UrlDecode (split_on 46 tok ! 1))))
   \<and> (length (split_on 46 tok) \<noteq> 3 \<longrightarrow>
        parseJWTToken tok =
          Inl (Error (lit ''Invalid token format: expected 3 parts, got ''
                      @ digits (length (split_on 46 tok)))))
   \<and> (length (split_on 46 tok) = 3 \<longrightarrow>
        parseJWTToken tok =
          (case JSON_parse (base64UrlDecode (split_on 46 tok ! 1)) of
             Inr v \<Rightarrow> Inr v
           | Inl e \<Rightarrow>
               Inl (Error (if split_on 46 tok ! 1 = []
                           then lit ''Invalid token format: missing payload''
                           else lit ''Failed to parse token payload: '' @ message e))))
   \<and> base64UrlDecode p = utf8_string (base64_bytes (to_base64 p))
   \<and> to_base64 p = map (\<lambda>c. if c = 45 then 43 else if c = 95 then 47 else c) p
                    @ replicate ((4 - length p mod 4) mod 4) 61
   \<and> length (to_base64 p) mod 4 = 0"
proof (intro conjI impI)
  show "isl (parseJWTToken tok) \<longleftrightarrow>
          length (split_on 46 tok) \<noteq> 3
          \<or> isl (JSON_parse (base64UrlDecode (split_on 46 tok ! 1)))"
    by (rule parseJWTToken_isl)
  show "base64UrlDecode p = utf8_string (base64_bytes (to_base64 p))"
    by (simp add: base64UrlDecode_def)
  show "length (to_base64 p) mod 4 = 0"
    by (rule to_base64_length)
qed (simp_all add: parseJWTToken_parts parseJWTToken_payload to_base64_eq)

text \<open>
  The token \<open>a.bnVsbA.c\<close>, whose payload is the base64 of the text \<open>null\<close>, evaluated
  step by step; \<open>only.two\<close> has two segments.
\<close>

lemma split_null: "split_on 46 (lit ''a.bnVsbA.c'') = [lit ''a'', lit ''bnVsbA'', lit ''c'']"
  by code_simp

lemma pad_null: "to_base64 (lit ''bnVsbA'') = lit ''bnVsbA==''"
  by code_simp

lemma bytes_null: "base64_bytes (lit ''bnVsbA=='') = [110, 117, 108, 108]"
  by (simp add: base64_bytes_def sextet_def lit_def)

lemma text_null: "utf8_string [110, 117, 108, 108] = lit ''null''"
  by (simp add: utf8_string_def lit_def)

lemma decode_null: "base64UrlDecode (lit ''bnVsbA'') = lit ''null''"
  by (simp add: base64UrlDecode_def pad_null bytes_null text_null)

lemma json_null: "JSON_parse (lit ''null'') = Inr JNull"
  by code_simp

lemma parse_null: "parseJWTToken (lit ''a.bnVsbA.c'') = Inr JNull"
  by (simp add: parseJWTToken_def split_null decode_null json_null)

text \<open>
  C4, as stated, fails on the code in its last part. The token \<open>a.bnVsbA.c\<close> has three
  segments and its second segment decodes to the JSON text \<open>null\<close>, which \<open>JSON.parse\<close>
  accepts; \<open>parseJWTToken\<close> does not throw, and what it returns is \<open>null\<close>, which is not
  a JSON object.
\<close>

theorem parseJWTToken_counterexample:
  "length (split_on 46 (lit ''a.bnVsbA.c'')) = 3
   \<and> JSON_parse (base64UrlDecode (split_on 46 (lit ''a.bnVsbA.c'') ! 1)) = Inr JNull
   \<and> parseJWTToken (lit ''a.bnVsbA.c'') = Inr JNull
   \<and> \<not> is_object JNull"
  by (simp add: split_null decode_null json_null parse_null)

text \<open>
  The same payload with U+0141 for its last character: the decoder reads the low byte,
  which is that of \<open>A\<close>.
\<close>

lemma split_low_byte:
  "split_on 46 (lit ''a.bnVsb'' @ 321 # lit ''.c'') = [lit ''a'', lit ''bnVsb'' @ [321], lit ''c'']"
  by (simp add: lit_def)

lemma pad_low_byte: "to_base64 (lit ''bnVsb'' @ [321]) = lit ''bnVsb'' @ 321 # lit ''==''"
  by (simp add: to_base64_def lit_def numeral_2_eq_2)

lemma bytes_low_byte: "base64_bytes (lit ''bnVsb'' @ 321 # lit ''=='') = [110, 117, 108, 108]"
  by (simp add: base64_bytes_def sextet_def lit_def)

lemma parse_low_byte: "parseJWTToken (lit ''a.bnVsb'' @ 321 # lit ''.c'') = Inr JNull"
  unfolding parseJWTToken_def split_low_byte base64UrlDecode_def
  by (simp add: pad_low_byte bytes_low_byte text_null json_null)

lemma split_two: "split_on 46 (lit ''only.two'') = [lit ''only'', lit ''two'']"
  by code_simp

lemma got_2:
  "lit ''Invalid token format: expected 3 parts, got '' @ digits (Suc (Suc 0))
   = lit ''Invalid token format: expected 3 parts, got 2''"
  by code_simp

theorem parseJWTToken_throws_witness:
  "parseJWTToken (lit ''only.two'') = Inl (Error (lit ''Invalid token format: expected 3 parts, got 2''))
   \<and> parseJWTToken (lit ''a.bnVsbA.c'') = Inr JNull
   \<and> length (to_base64 (lit ''bnVsbA'')) mod 4 = 0"
proof -
  note two = parseJWTToken_throws [of "lit ''only.two''" "lit ''bnVsbA''"]
  note null = parseJWTToken_throws [of "lit ''a.bnVsbA.c''" "lit ''bnVsbA''"]
  have "parseJWTToken (lit ''only.two'')
        = Inl (Error (lit ''Invalid token format: expected 3 parts, got 2''))"
    using two [THEN conjunct2, THEN conjunct1] by (simp add: split_two got_2)
  moreover have "parseJWTToken (lit ''a.bnVsbA.c'') = Inr JNull"
    using null [THEN conjunct2, THEN conjunct2, THEN conjunct1]
    by (simp add: split_null decode_null json_null)
  moreover have "length (to_base64 (lit ''bnVsbA'')) mod 4 = 0"
    using null by (elim conjE)
  ultimately show ?thesis by simp
qed

section \<open>Opaque tokens\<close>

lemma strip_two_spaces: "strip_bearer (lit ''Bearer  abcdefghi'') = lit ''abcdefghi''"
  by (simp add: strip_bearer_def lit_def lower_def is_space_def)

lemma strip_one_space: "strip_bearer_space (lit ''Bearer  abcdefghi'') = lit '' abcdefghi''"
  by code_simp

lemma length_9: "length (lit ''abcdefghi'') = 9"
  by (simp add: lit_def)

lemma length_5: "length (lit ''short'') = 5"
  by (simp add: lit_def)

lemma length_31: "length (lit ''opaque-token-without-dots-12345'') = 31"
  by (simp add: lit_def)

lemma too_short_9:
  "lit ''Token appears too short (length: '' @ digits 9 @ lit '')''
   = lit ''Token appears too short (length: 9)''"
  by code_simp

text \<open>
  C5, as stated, fails on the code. In \<open>Bearer  abcdefghi\<close> two spaces follow the word.
  Without the prefix \<open>Bearer\<close> and one space, ten characters without a \<open>.\<close> remain, which
  the claim makes valid; the code removes all the white space after the word, nine
  characters remain, and the token is invalid.
\<close>

theorem opaque_token_counterexample:
  "validateAuthToken (\<lambda>v. Inr NaN) 0 0 (lit ''Bearer  abcdefghi'')
     = Inr \<lparr>valid = False, error = Some (lit ''Token appears too short (length: 9)''),
            claims = None\<rparr>
   \<and> strip_bearer_space (lit ''Bearer  abcdefghi'') = lit '' abcdefghi''
   \<and> 46 \<notin> set (lit '' abcdefghi'')
   \<and> length (lit '' abcdefghi'') = 10"
proof -
  have "46 \<notin> set (lit ''abcdefghi'')" "46 \<notin> set (lit '' abcdefghi'')"
    by (simp_all add: lit_def)
  then show ?thesis
    by (simp add: validateAuthToken_def strip_two_spaces strip_one_space length_9 too_short_9)
      (simp add: lit_def)
qed

lemma strip_bearer_match:
  assumes b: "map lower b = lit ''bearer''"
    and ws: "ws \<noteq> []" "\<forall>c\<in>set ws. is_space c"
    and rest: "rest = [] \<or> \<not> is_space (hd rest)"
  shows "strip_bearer (b @ ws @ rest) = rest"
proof -
  from b have len: "length b = 6"
    using length_map [of lower b] by (simp add: lit_def)
  from ws obtain w ws' where w: "ws = w # ws'" "is_space w"
    by (cases ws) auto
  from rest have "dropWhile is_space rest = rest"
    by (cases rest) auto
  with ws(2) have "dropWhile is_space (ws @ rest) = rest"
    by (simp add: dropWhile_append2)
  with len b w show ?thesis
    by (simp add: strip_bearer_def nth_append)
qed

lemma strip_bearer_no_match:
  "\<not> (map lower (take 6 s) = lit ''bearer'' \<and> 6 < length s \<and> is_space (s ! 6)) \<Longrightarrow>
     strip_bearer s = s"
  by (auto simp: strip_bearer_def)

text \<open>
  C5, amended. The empty token is invalid with the message \<open>Auth token is empty\<close>. The
  prefix removed from a token is the word \<open>Bearer\<close>, in any case, at its start, with all
  the white space that follows it, of which there must be some; a token that does not start
  so is left as it is. A token that is not empty and has no \<open>.\<close> after that is valid exactly
  when at least 10 characters remain, and invalid otherwise with a message that reports how
  many remain.
\<close>

theorem opaque_token_validation:
  "validateAuthToken N t1 t2 []
     = Inr \<lparr>valid = False, error = Some (lit ''Auth token is empty''), claims = None\<rparr>
   \<and> (tok \<noteq> [] \<and> 46 \<notin> set (strip_bearer tok) \<longrightarrow>
        validateAuthToken N t1 t2 tok =
          (if 10 \<le> length (strip_bearer tok)
           then Inr \<lparr>valid = True, error = None, claims = None\<rparr>
           else Inr \<lparr>valid = False,
                     error = Some (lit ''Token appears too short (length: ''
                                   @ digits (length (strip_bearer tok)) @ lit '')''),
                     claims = None\<rparr>))
   \<and> (map lower b = lit ''bearer'' \<and> ws \<noteq> [] \<and> (\<forall>c\<in>set ws. is_space c)
        \<and> (rest = [] \<or> \<not> is_space (hd rest)) \<longrightarrow>
        strip_bearer (b @ ws @ rest) = rest)
   \<and> (\<not> (map lower (take 6 tok) = lit ''bearer'' \<and> 6 < length tok \<and> is_space (tok ! 6)) \<longrightarrow>
        strip_bearer tok = tok)"
  using strip_bearer_match [of b ws rest] strip_bearer_no_match [of tok]
  by (simp add: validateAuthToken_def Let_def)

lemma strip_plain: "strip_bearer (lit ''opaque-token-without-dots-12345'') = lit ''opaque-token-without-dots-12345''"
  by (simp add: strip_bearer_def lit_def lower_def is_space_def)

lemma strip_short: "strip_bearer (lit ''short'') = lit ''short''"
  by (simp add: strip_bearer_def lit_def lower_def is_space_def)

lemma too_short_5:
  "lit ''Token appears too short (length: '' @ digits 5 @ lit '')''
   = lit ''Token appears too short (length: 5)''"
  by code_simp

theorem opaque_token_validation_witness:
  "validateAuthToken (\<lambda>v. Inr NaN) 0 0 (lit ''opaque-token-without-dots-12345'')
     = Inr \<lparr>valid = True, error = None, claims = None\<rparr>
   \<and> validateAuthToken (\<lambda>v. Inr NaN) 0 0 (lit ''short'')
     = Inr \<lparr>valid = False, error = Some (lit ''Token appears too short (length: 5)''),
            claims = None\<rparr>
   \<and> strip_bearer (lit ''BEARER'' @ [32, 9] @ lit ''abc'') = lit ''abc''"
proof -
  have dots: "46 \<notin> set (lit ''opaque-token-without-dots-12345'')" "46 \<notin> set (lit ''short'')"
    by (simp_all add: lit_def)
  have bearer: "map lower (lit ''BEARER'') = lit ''bearer''"
    by (simp add: lit_def lower_def)
  have spaces: "\<forall>c\<in>set [32, 9]. is_space c" "\<not> is_space (hd (lit ''abc''))"
    by (simp_all add: is_space_def lit_def)
  note long = opaque_token_validation [where tok = "lit ''opaque-token-without-dots-12345''"
      and N = "\<lambda>v. Inr NaN" and ?t1.0 = 0 and ?t2.0 = 0]
  note short = opaque_token_validation [where tok = "lit ''short''"
      and N = "\<lambda>v. Inr NaN" and ?t1.0 = 0 and ?t2.0 = 0]
  note strip = opaque_token_validation [where b = "lit ''BEARER''" and ws = "[32, 9]"
      and rest = "lit ''abc''"]
  have "validateAuthToken (\<lambda>v. Inr NaN) 0 0 (lit ''opaque-token-without-dots-12345'')
          = Inr \<lparr>valid = True, error = None, claims = None\<rparr>"
    using long [THEN conjunct2, THEN conjunct1] dots by (simp add: strip_plain length_31)
  moreover have "validateAuthToken (\<lambda>v. Inr NaN) 0 0 (lit ''short'')
          = Inr \<lparr>valid = False, error = Some (lit ''Token appears too short (length: 5)''),
                 claims = None\<rparr>"
    using short [THEN conjunct2, THEN conjunct1] dots
    by (simp add: strip_short length_5 too_short_5)
  moreover have "strip_bearer (lit ''BEARER'' @ [32, 9] @ lit ''abc'') = lit ''abc''"
    using strip [THEN conjunct2, THEN conjunct2, THEN conjunct1] bearer spaces by simp
  ultimately show ?thesis by simp
qed

section \<open>Configuration and transport\<close>

lemma nullish_case: "nullish x d = (case x of None \<Rightarrow> d | Some a \<Rightarrow> a)"
  by (cases x) simp_all

lemma resolveConfig_isl:
  "isl (resolveConfig U cfg) \<longleftrightarrow>
     \<not> U (case baseUrl cfg of None \<Rightarrow> lit ''https://api.admiral.io'' | Some u \<Rightarrow> u)"
  by (simp add: resolveConfig_def DEFAULT_CONFIG_def Let_def nullish_case)

lemma strip_slash_one: "strip_slash (u @ [47]) = u"
  by (simp add: strip_slash_def)

lemma strip_slash_none: "u = [] \<or> last u \<noteq> 47 \<Longrightarrow> strip_slash u = u"
  by (auto simp: strip_slash_def)

text \<open>
  C6. For every configuration and every URL parser \<open>U\<close>: the base URL chosen is the one
  supplied, or \<open>https://api.admiral.io\<close>; \<open>resolveConfig\<close> throws exactly when the parser
  fails on it, and then the error names it; otherwise the result has the chosen URL without
  one \<open>/\<close> at its end, and the timeout, HTTP version and authorization scheme supplied, or
  \<open>30000\<close>, \<open>2\<close> and \<open>bearer\<close>. Of a URL that ends in \<open>/\<close> exactly that one character is
  removed, and any other URL is kept as it is.
\<close>

theorem resolveConfig_defaults:
  "(isl (resolveConfig U cfg) \<longleftrightarrow>
      \<not> U (case baseUrl cfg of None \<Rightarrow> lit ''https://api.admiral.io'' | Some u \<Rightarrow> u))
   \<and> (resolveConfig U cfg = Inr r \<longrightarrow>
        resolved_baseUrl r
          = strip_slash (case baseUrl cfg of None \<Rightarrow> lit ''https://api.admiral.io'' | Some u \<Rightarrow> u)
        \<and> resolved_timeout r = (case timeout cfg of None \<Rightarrow> 30000 | Some t \<Rightarrow> t)
        \<and> resolved_httpVersion r = (case httpVersion cfg of None \<Rightarrow> Http2 | Some v \<Rightarrow> v)
        \<and> resolved_authScheme r = (case authScheme cfg of None \<Rightarrow> Bearer | Some a \<Rightarrow> a)
        \<and> resolved_logger r = (case logger cfg of None \<Rightarrow> noopLogger | Some l \<Rightarrow> l)
        \<and> resolved_authToken r = authToken cfg
        \<and> resolved_headers r = headers cfg)
   \<and> (isl (resolveConfig U cfg) \<longrightarrow>
        resolveConfig U cfg =
          Inl (Error (lit ''Invalid baseUrl: ''
                      @ (case baseUrl cfg of None \<Rightarrow> lit ''https://api.admiral.io'' | Some u \<Rightarrow> u))))
   \<and> strip_slash (u @ [47]) = u
   \<and> (u = [] \<or> last u \<noteq> 47 \<longrightarrow> strip_slash u = u)"
proof (intro conjI impI)
  show "strip_slash (u @ [47]) = u"
    by (rule strip_slash_one)
  show "strip_slash u = u" if "u = [] \<or> last u \<noteq> 47"
    using that by (rule strip_slash_none)
qed (auto simp: resolveConfig_def DEFAULT_CONFIG_def Let_def nullish_case
      split: option.splits if_splits)

theorem resolveConfig_defaults_witness:
  "(case resolveConfig (\<lambda>u. True) example_config of
      Inl e \<Rightarrow> False
    | Inr r \<Rightarrow>
        resolved_baseUrl r = lit ''https://custom.api.io''
        \<and> resolved_timeout r = 30000 \<and> resolved_httpVersion r = Http2
        \<and> resolved_authScheme r = Token)
   \<and> isl (resolveConfig (\<lambda>u. False) example_config)"
proof -
  obtain r where r: "resolveConfig (\<lambda>u. True) example_config = Inr r"
    using resolveConfig_defaults [of "\<lambda>u. True" example_config]
    by (cases "resolveConfig (\<lambda>u. True) example_config") auto
  have slash: "lit ''https://custom.api.io/'' = lit ''https://custom.api.io'' @ [47]"
    by (simp add: lit_def)
  from resolveConfig_defaults [of "\<lambda>u. True" example_config r "lit ''https://custom.api.io''"] r
  have "resolved_baseUrl r = lit ''https://custom.api.io''
        \<and> resolved_timeout r = 30000 \<and> resolved_httpVersion r = Http2
        \<and> resolved_authScheme r = Token"
    by (simp add: example_config_def slash)
  moreover have "isl (resolveConfig (\<lambda>u. False) example_config)"
    using resolveConfig_defaults [of "\<lambda>u. False" example_config] by simp
  ultimately show ?thesis
    by (simp add: r)
qed

text \<open>
  C7. For every configuration, \<open>createTransport\<close> throws exactly when \<open>resolveConfig\<close>
  does, and the transport it returns otherwise has these interceptors, in this order: the
  timeout interceptor, always; the headers interceptor, exactly when the configuration has
  headers and at least one of them; the authorization interceptor, exactly when the
  configuration has a token that is not the empty string, with the header text \<open>Token\<close> and
  the token for the scheme \<open>token\<close> and \<open>Bearer\<close> and the token otherwise.
\<close>

theorem createTransport_interceptors:
  "(isl (createTransport U cfg) \<longleftrightarrow> isl (resolveConfig U cfg))
   \<and> (createTransport U cfg = Inr tr \<longrightarrow>
        interceptors tr =
          [TimeoutInterceptor (case timeout cfg of None \<Rightarrow> 30000 | Some t \<Rightarrow> t)]
          @ (case headers cfg of
               None \<Rightarrow> []
             | Some hs \<Rightarrow> if hs = [] then [] else [HeadersInterceptor hs])
          @ (case authToken cfg of
               None \<Rightarrow> []
             | Some tok \<Rightarrow>
                 if tok = [] then []
                 else [AuthInterceptor
                         ((if authScheme cfg = Some Token then lit ''Token'' else lit ''Bearer'')
                          @ [32] @ tok)]))"
  by (auto simp: createTransport_def resolveConfig_def DEFAULT_CONFIG_def Let_def nullish_case
        createTimeoutInterceptor_def createHeadersInterceptor_def createAuthInterceptor_def
      split: option.splits if_splits sum.splits)

theorem createTransport_interceptors_witness:
  "(case createTransport (\<lambda>u. True) example_config of
      Inl e \<Rightarrow> False
    | Inr tr \<Rightarrow>
        interceptors tr =
          [TimeoutInterceptor 30000,
           HeadersInterceptor [(lit ''X-Custom-Header'', lit ''custom-value'')],
           AuthInterceptor (lit ''Token test-token'')])"
proof -
  obtain tr where tr: "createTransport (\<lambda>u. True) example_config = Inr tr"
    using createTransport_interceptors [of "\<lambda>u. True" example_config]
          resolveConfig_isl [of "\<lambda>u. True" example_config]
    by (cases "createTransport (\<lambda>u. True) example_config") auto
  have "lit ''Token'' @ [32] @ lit ''test-token'' = lit ''Token test-token''"
    by (simp add: lit_def)
  with createTransport_interceptors [of "\<lambda>u. True" example_config tr] tr
  show ?thesis
    by (simp add: example_config_def)
qed

section \<open>The client's service accessors\<close>

lemma createClient_consistent:
  "createClient U cfg = Inr c \<Longrightarrow> consistent c \<and> dom (handles c) = {}"
  by (auto simp: createClient_def consistent_def split: sum.splits)

lemma access_stored:
  "handles c s = Some h \<Longrightarrow> access s c = (h, c)"
  by (simp add: access_def)

lemma access_fresh:
  "handles c s = None \<Longrightarrow>
     access s c =
       (\<lparr>service = s, over = transport c, ident = created c\<rparr>,
        c\<lparr>handles := (handles c)(s \<mapsto> \<lparr>service = s, over = transport c, ident = created c\<rparr>),
          created := Suc (created c)\<rparr>)"
  by (simp add: access_def Let_def)

lemma access_consistent:
  assumes "access s c = (h, c')" and "consistent c"
  shows "consistent c'"
    and "transport c' = transport c"
    and "handles c' s = Some h"
    and "dom (handles c') = insert s (dom (handles c))"
    and "\<And>s' h'. handles c s' = Some h' \<Longrightarrow> handles c' s' = Some h'"
proof -
  show "consistent c'"
  proof (cases "handles c s")
    case None
    with assms(1) have c': "c' = c\<lparr>handles := (handles c)(s \<mapsto> h), created := Suc (created c)\<rparr>"
      and h: "h = \<lparr>service = s, over = transport c, ident = created c\<rparr>"
      by (auto simp: access_fresh)
    from None have "s \<notin> dom (handles c)"
      by auto
    with assms(2) have "card (insert s (dom (handles c))) = Suc (created c)"
      by (simp add: consistent_def)
    with assms(2) show ?thesis
      unfolding consistent_def c' h by (auto split: if_splits) fastforce+
  next
    case (Some h0)
    with assms show ?thesis
      by (simp add: access_stored)
  qed
  show "transport c' = transport c"
    using assms(1) by (cases "handles c s") (auto simp: access_fresh access_stored)
  show "handles c' s = Some h"
    using assms(1) by (cases "handles c s") (auto simp: access_fresh access_stored)
  show "dom (handles c') = insert s (dom (handles c))"
    using assms(1) by (cases "handles c s") (auto simp: access_fresh access_stored)
  show "\<And>s' h'. handles c s' = Some h' \<Longrightarrow> handles c' s' = Some h'"
    using assms(1) by (cases "handles c s") (auto simp: access_fresh access_stored)
qed

lemma accesses_consistent:
  "accesses ss c = (hs, c') \<Longrightarrow> consistent c \<Longrightarrow>
     consistent c' \<and> transport c' = transport c \<and> length hs = length ss
     \<and> (\<forall>i<length ss. handles c' (ss ! i) = Some (hs ! i))
     \<and> dom (handles c') = dom (handles c) \<union> set ss
     \<and> (\<forall>s h. handles c s = Some h \<longrightarrow> handles c' s = Some h)"
proof (induction ss arbitrary: c hs c')
  case Nil
  then show ?case by simp
next
  case (Cons s ss)
  obtain h c1 where step: "access s c = (h, c1)"
    by (cases "access s c")
  obtain hs1 c2 where run: "accesses ss c1 = (hs1, c2)"
    by (cases "accesses ss c1")
  from Cons.prems(1) step run have eq: "hs = h # hs1" "c' = c2"
    by simp_all
  note a = access_consistent [OF step Cons.prems(2)]
  note ih = Cons.IH [OF run a(1)]
  have "handles c2 ((s # ss) ! i) = Some ((h # hs1) ! i)" if "i < length (s # ss)" for i
  proof (cases i)
    case 0
    with a(3) ih show ?thesis by simp
  next
    case (Suc k)
    with that ih show ?thesis by simp
  qed
  moreover have "handles c2 s' = Some h'" if "handles c s' = Some h'" for s' h'
    using that a(5) ih by blast
  ultimately show ?case
    using ih a(2) a(4) unfolding eq by auto
qed

text \<open>
  C8. For every client that \<open>createClient\<close> returns and every run of accesses to its
  service accessors, whatever their order and number: each access returns a service client
  of the accessor's service over the client's transport; two accesses return the same
  object exactly when they are accesses of the same accessor; a variable of the client is
  set exactly when its accessor was accessed, so nothing is constructed before the first
  access; and the number of service clients constructed is the number of distinct accessors
  accessed, so each is constructed once.
\<close>

theorem lazy_service_handles:
  "createClient U cfg = Inr c0 \<and> accesses ss c0 = (hs, c) \<longrightarrow>
     length hs = length ss
     \<and> (\<forall>i<length ss. service (hs ! i) = ss ! i \<and> over (hs ! i) = transport c0)
     \<and> (\<forall>i<length ss. \<forall>j<length ss. (ss ! i = ss ! j) = (hs ! i = hs ! j))
     \<and> (\<forall>i<length ss. \<forall>j<length ss. (ss ! i = ss ! j) = (ident (hs ! i) = ident (hs ! j)))
     \<and> (\<forall>s. handles c s \<noteq> None \<longleftrightarrow> s \<in> set ss)
     \<and> created c = card (set ss)
     \<and> transport c = transport c0"
proof (intro impI, elim conjE)
  assume c0: "createClient U cfg = Inr c0" and run: "accesses ss c0 = (hs, c)"
  note start = createClient_consistent [OF c0]
  note fin = accesses_consistent [OF run start [THEN conjunct1]]
  from fin have cons: "consistent c" and stored: "\<forall>i<length ss. handles c (ss ! i) = Some (hs ! i)"
    by simp_all
  have props: "service (hs ! i) = ss ! i \<and> over (hs ! i) = transport c" if "i < length ss" for i
    using cons stored that unfolding consistent_def by blast
  have same: "(ss ! i = ss ! j) = (hs ! i = hs ! j)" if "i < length ss" "j < length ss" for i j
    using stored props that by (metis option.inject)
  have ids: "(ss ! i = ss ! j) = (ident (hs ! i) = ident (hs ! j))"
    if "i < length ss" "j < length ss" for i j
  proof
    assume "ss ! i = ss ! j"
    with same that show "ident (hs ! i) = ident (hs ! j)" by simp
  next
    assume "ident (hs ! i) = ident (hs ! j)"
    with cons stored that show "ss ! i = ss ! j"
      unfolding consistent_def by blast
  qed
  have dom: "dom (handles c) = set ss"
    using fin start by simp
  then have "handles c s \<noteq> None \<longleftrightarrow> s \<in> set ss" for s
    by (auto simp: dom_def)
  moreover have "created c = card (set ss)"
    using cons dom by (simp add: consistent_def)
  ultimately show "length hs = length ss
     \<and> (\<forall>i<length ss. service (hs ! i) = ss ! i \<and> over (hs ! i) = transport c0)
     \<and> (\<forall>i<length ss. \<forall>j<length ss. (ss ! i = ss ! j) = (hs ! i = hs ! j))
     \<and> (\<forall>i<length ss. \<forall>j<length ss. (ss ! i = ss ! j) = (ident (hs ! i) = ident (hs ! j)))
     \<and> (\<forall>s. handles c s \<noteq> None \<longleftrightarrow> s \<in> set ss)
     \<and> created c = card (set ss)
     \<and> transport c = transport c0"
    using fin props same ids by simp
qed

lemma createClient_returns:
  "U (case baseUrl cfg of None \<Rightarrow> lit ''https://api.admiral.io'' | Some u \<Rightarrow> u) \<Longrightarrow>
     \<exists>c. createClient U cfg = Inr c \<and> config c = cfg"
  using resolveConfig_isl [of U cfg]
  by (auto simp: createClient_def createTransport_def Let_def split: sum.splits)

theorem lazy_service_handles_witness:
  "(case createClient (\<lambda>u. True) example_config of
      Inl e \<Rightarrow> False
    | Inr c0 \<Rightarrow>
        (case accesses [Cluster, Runner, Cluster] c0 of
           (hs, c) \<Rightarrow>
             hs ! 0 = hs ! 2 \<and> hs ! 0 \<noteq> hs ! 1 \<and> ident (hs ! 0) \<noteq> ident (hs ! 1)
             \<and> over (hs ! 1) = transport c0 \<and> created c = 2 \<and> handles c State = None))"
proof -
  define ss where "ss = [Cluster, Runner, Cluster]"
  have ss: "length ss = 3" "ss ! 0 = Cluster" "ss ! 1 = Runner" "ss ! 2 = Cluster"
    "State \<notin> set ss"
    by (simp_all add: ss_def)
  have "set ss = {Cluster, Runner}"
    by (auto simp: ss_def)
  then have card: "card (set ss) = 2"
    by simp
  obtain c0 where c0: "createClient (\<lambda>u. True) example_config = Inr c0"
    using createClient_returns [of "\<lambda>u. True" example_config] by auto
  obtain hs c where run: "accesses ss c0 = (hs, c)"
    by (cases "accesses ss c0")
  from lazy_service_handles [of "\<lambda>u. True" example_config c0 ss hs c] c0 run
  have over: "\<forall>i<length ss. service (hs ! i) = ss ! i \<and> over (hs ! i) = transport c0"
    and same: "\<forall>i<length ss. \<forall>j<length ss. (ss ! i = ss ! j) = (hs ! i = hs ! j)"
    and ids: "\<forall>i<length ss. \<forall>j<length ss. (ss ! i = ss ! j) = (ident (hs ! i) = ident (hs ! j))"
    and set: "\<forall>s. handles c s \<noteq> None \<longleftrightarrow> s \<in> set ss"
    and count: "created c = card (set ss)"
    by blast+
  from same [rule_format, of 0 2] ss have "hs ! 0 = hs ! 2"
    by simp
  moreover from same [rule_format, of 0 1] ss have "hs ! 0 \<noteq> hs ! 1"
    by simp
  moreover from ids [rule_format, of 0 1] ss have "ident (hs ! 0) \<noteq> ident (hs ! 1)"
    by simp
  moreover from over [rule_format, of 1] ss have "over (hs ! 1) = transport c0"
    by simp
  moreover from count card have "created c = 2"
    by simp
  moreover from set [rule_format, of State] ss have "handles c State = None"
    by simp
  ultimately show ?thesis
    using c0 run by (simp add: ss_def)
qed

section \<open>Tokens on which validation returns\<close>

lemma date_text_number:
  assumes "member cl k = Inr (Some (JNum r))" and "r \<noteq> 0"
    and "\<bar>r * 1000\<bar> \<le> 8640000000000000"
  shows "date_text N cl k = Inr (iso_text (if 0 \<le> r then \<lfloor>r * 1000\<rfloor> else \<lceil>r * 1000\<rceil>))"
proof -
  have "(0 \<le> r * 1000) = (0 \<le> r)"
    by (simp add: zero_le_mult_iff)
  with assms show ?thesis
    by (simp add: date_text_def)
qed

text \<open>
  On a token whose claims are not \<open>null\<close> and whose \<open>exp\<close> and \<open>nbf\<close> are absent or
  numbers of seconds within the range of \<open>Date\<close>, \<open>validateAuthToken\<close> returns, with the
  claims, and the result is valid exactly when the token is neither expired nor not yet
  valid.
\<close>

lemma validateAuthToken_returns:
  assumes tok: "tok \<noteq> []" "46 \<in> set (strip_bearer tok)"
    and parse: "parseJWTToken (strip_bearer tok) = Inr cl"
    and ex: "member cl (lit ''exp'') = Inr ex"
      "ex = None \<or> (\<exists>r. ex = Some (JNum r) \<and> \<bar>r * 1000\<bar> \<le> 8640000000000000)"
    and nb: "member cl (lit ''nbf'') = Inr nb"
      "nb = None \<or> (\<exists>r. nb = Some (JNum r) \<and> \<bar>r * 1000\<bar> \<le> 8640000000000000)"
  shows "\<exists>tv. validateAuthToken N t1 t2 tok = Inr tv \<and> claims tv = Some cl
           \<and> (valid tv \<longleftrightarrow>
                 isTokenExpired N t1 cl = Inr False \<and> isTokenNotYetValid N t2 cl = Inr False)
           \<and> (isTokenExpired N t1 cl = Inr True \<longrightarrow>
                 (\<exists>d. date_text N cl (lit ''exp'') = Inr d
                      \<and> error tv = Some (lit ''Token expired at '' @ d)))
           \<and> (isTokenExpired N t1 cl = Inr False \<and> isTokenNotYetValid N t2 cl = Inr True \<longrightarrow>
                 (\<exists>d. date_text N cl (lit ''nbf'') = Inr d
                      \<and> error tv = Some (lit ''Token not yet valid until '' @ d)))"
proof -
  have e: "\<exists>b. isTokenExpired N t1 cl = Inr b"
    using ex by (auto simp: isTokenExpired_def)
  have n: "\<exists>b. isTokenNotYetValid N t2 cl = Inr b"
    using nb by (auto simp: isTokenNotYetValid_def)
  have de: "\<exists>d. date_text N cl (lit ''exp'') = Inr d"
    using ex by (auto simp: date_text_def)
  have dn: "\<exists>d. date_text N cl (lit ''nbf'') = Inr d"
    using nb by (auto simp: date_text_def)
  from e obtain b1 where b1: "isTokenExpired N t1 cl = Inr b1" ..
  from n obtain b2 where b2: "isTokenNotYetValid N t2 cl = Inr b2" ..
  from de obtain d1 where d1: "date_text N cl (lit ''exp'') = Inr d1" ..
  from dn obtain d2 where d2: "date_text N cl (lit ''nbf'') = Inr d2" ..
  from tok parse show ?thesis
    by (cases b1; cases b2) (simp_all add: validateAuthToken_def b1 b2 d1 d2)
qed

section \<open>Tokens on which validation throws\<close>

text \<open>
  The lemmas of this section hold for every coercion \<open>N\<close>: none of the tokens has a claim
  that needs one. The theorems after them are stated for one coercion and one clock
  reading, 14 November 2023.
\<close>

lemma dots_null: "46 \<in> set (lit ''a.bnVsbA.c'')"
  by (simp add: lit_def)

lemma strip_null: "strip_bearer (lit ''a.bnVsbA.c'') = lit ''a.bnVsbA.c''"
  by (simp add: strip_bearer_def lit_def lower_def)

lemma strip_bearer_null: "strip_bearer (lit ''Bearer a.bnVsbA.c'') = lit ''a.bnVsbA.c''"
  by (simp add: strip_bearer_def lit_def lower_def is_space_def)

lemma null_exp:
  "isTokenExpired N t JNull = Inl (TypeError (lit ''Cannot read properties of null (reading 'exp')''))"
  by (simp add: isTokenExpired_def lit_def)

text \<open>The null payload, for every coercion and every clock.\<close>

lemma validateAuthToken_null:
  "validateAuthToken N t1 t2 (lit ''a.bnVsbA.c'')
   = Inl (TypeError (lit ''Cannot read properties of null (reading 'exp')''))"
  by (simp add: validateAuthToken_def strip_null dots_null parse_null null_exp)

lemma validateAuthToken_bearer_null:
  "validateAuthToken N t1 t2 (lit ''Bearer a.bnVsbA.c'')
   = Inl (TypeError (lit ''Cannot read properties of null (reading 'exp')''))"
  by (simp add: validateAuthToken_def strip_bearer_null dots_null parse_null null_exp)

text \<open>The payload \<open>{"nbf":10000000000000}\<close>.\<close>

lemma split_nbf:
  "split_on 46 (lit ''a.eyJuYmYiOjEwMDAwMDAwMDAwMDAwfQ.c'')
   = [lit ''a'', lit ''eyJuYmYiOjEwMDAwMDAwMDAwMDAwfQ'', lit ''c'']"
  by code_simp

lemma pad_nbf:
  "to_base64 (lit ''eyJuYmYiOjEwMDAwMDAwMDAwMDAwfQ'') = lit ''eyJuYmYiOjEwMDAwMDAwMDAwMDAwfQ==''"
  by code_simp

lemma bytes_nbf:
  "base64_bytes (lit ''eyJuYmYiOjEwMDAwMDAwMDAwMDAwfQ=='')
   = [123, 34, 110, 98, 102, 34, 58, 49, 48, 48, 48, 48, 48, 48, 48, 48, 48, 48, 48, 48, 48, 125]"
  by (simp add: base64_bytes_def sextet_def lit_def)

lemma text_nbf:
  \<open>utf8_string
     [123, 34, 110, 98, 102, 34, 58, 49, 48, 48, 48, 48, 48, 48, 48, 48, 48, 48, 48, 48, 48, 125]
   = lit ''{"nbf":10000000000000}''\<close>
  by (simp add: utf8_string_def lit_def)

lemma json_nbf:
  \<open>JSON_parse (lit ''{"nbf":10000000000000}'') = Inr (JObj [(lit ''nbf'', JNum 10000000000000)])\<close>
  by code_simp

lemma parse_nbf:
  "parseJWTToken (lit ''a.eyJuYmYiOjEwMDAwMDAwMDAwMDAwfQ.c'')
   = Inr (JObj [(lit ''nbf'', JNum 10000000000000)])"
  by (simp add: parseJWTToken_def split_nbf base64UrlDecode_def pad_nbf bytes_nbf text_nbf json_nbf)

lemma strip_nbf:
  "strip_bearer (lit ''a.eyJuYmYiOjEwMDAwMDAwMDAwMDAwfQ.c'') = lit ''a.eyJuYmYiOjEwMDAwMDAwMDAwMDAwfQ.c''"
  by (simp add: strip_bearer_def lit_def lower_def)

lemma dots_nbf: "46 \<in> set (lit ''a.eyJuYmYiOjEwMDAwMDAwMDAwMDAwfQ.c'')"
  by (simp add: lit_def)

lemma validateAuthToken_far_nbf:
  "validateAuthToken N 1700000000000 1700000000000 (lit ''a.eyJuYmYiOjEwMDAwMDAwMDAwMDAwfQ.c'')
   = Inl (RangeError (lit ''Invalid time value''))"
proof -
  let ?cl = "JObj [(lit ''nbf'', JNum 10000000000000)]"
  have "isTokenExpired N 1700000000000 ?cl = Inr False"
    by (simp add: isTokenExpired_def lit_def)
  moreover have "isTokenNotYetValid N 1700000000000 ?cl = Inr True"
    by (simp add: isTokenNotYetValid_def)
  moreover have "date_text N ?cl (lit ''nbf'') = Inl (RangeError (lit ''Invalid time value''))"
    by (simp add: date_text_def)
  ultimately show ?thesis
    by (simp add: validateAuthToken_def strip_nbf dots_nbf parse_nbf)
qed

text \<open>The payload \<open>{"exp":-10000000000000}\<close>.\<close>

lemma split_exp:
  "split_on 46 (lit ''a.eyJleHAiOi0xMDAwMDAwMDAwMDAwMH0.c'')
   = [lit ''a'', lit ''eyJleHAiOi0xMDAwMDAwMDAwMDAwMH0'', lit ''c'']"
  by code_simp

lemma pad_exp:
  "to_base64 (lit ''eyJleHAiOi0xMDAwMDAwMDAwMDAwMH0'') = lit ''eyJleHAiOi0xMDAwMDAwMDAwMDAwMH0=''"
  by code_simp

lemma bytes_exp:
  "base64_bytes (lit ''eyJleHAiOi0xMDAwMDAwMDAwMDAwMH0='')
   = [123, 34, 101, 120, 112, 34, 58, 45, 49, 48, 48, 48, 48, 48, 48, 48, 48, 48, 48, 48, 48, 48, 125]"
  by (simp add: base64_bytes_def sextet_def lit_def)

lemma text_exp:
  \<open>utf8_string
     [123, 34, 101, 120, 112, 34, 58, 45, 49, 48, 48, 48, 48, 48, 48, 48, 48, 48, 48, 48, 48, 48, 125]
   = lit ''{"exp":-10000000000000}''\<close>
  by (simp add: utf8_string_def lit_def)

lemma json_exp:
  \<open>JSON_parse (lit ''{"exp":-10000000000000}'') = Inr (JObj [(lit ''exp'', JNum (- 10000000000000))])\<close>
  by code_simp

lemma parse_exp:
  "parseJWTToken (lit ''a.eyJleHAiOi0xMDAwMDAwMDAwMDAwMH0.c'')
   = Inr (JObj [(lit ''exp'', JNum (- 10000000000000))])"
  by (simp add: parseJWTToken_def split_exp base64UrlDecode_def pad_exp bytes_exp text_exp json_exp)

lemma strip_exp:
  "strip_bearer (lit ''a.eyJleHAiOi0xMDAwMDAwMDAwMDAwMH0.c'') = lit ''a.eyJleHAiOi0xMDAwMDAwMDAwMDAwMH0.c''"
  by (simp add: strip_bearer_def lit_def lower_def)

lemma dots_exp: "46 \<in> set (lit ''a.eyJleHAiOi0xMDAwMDAwMDAwMDAwMH0.c'')"
  by (simp add: lit_def)

lemma validateAuthToken_far_exp:
  "validateAuthToken N 1700000000000 1700000000000 (lit ''a.eyJleHAiOi0xMDAwMDAwMDAwMDAwMH0.c'')
   = Inl (RangeError (lit ''Invalid time value''))"
proof -
  let ?cl = "JObj [(lit ''exp'', JNum (- 10000000000000))]"
  have "isTokenExpired N 1700000000000 ?cl = Inr True"
    by (simp add: isTokenExpired_def)
  moreover have "date_text N ?cl (lit ''exp'') = Inl (RangeError (lit ''Invalid time value''))"
    by (simp add: date_text_def)
  ultimately show ?thesis
    by (simp add: validateAuthToken_def strip_exp dots_exp parse_exp)
qed

text \<open>
  C1 fails on the code. The token \<open>a.bnVsbA.c\<close> has a \<open>.\<close> and parsing it does not fail: its
  payload is the JSON text \<open>null\<close>, and \<open>parseJWTToken\<close> returns \<open>null\<close>. The claim then has
  \<open>validateAuthToken\<close> return a result; the code reads \<open>claims.exp\<close> of \<open>null\<close> outside the
  \<open>try\<close> block and throws a \<open>TypeError\<close>. And the claims of
  \<open>a.eyJleHAiOi0xMDAwMDAwMDAwMDAwMH0.c\<close>, \<open>{"exp":-10000000000000}\<close>, are expired, for which
  the claim has an invalid result with the message \<open>Token expired at\<close> and a timestamp; the
  date is before the first one a \<open>Date\<close> can hold, and \<open>toISOString\<close> throws a
  \<open>RangeError\<close>.
\<close>

theorem validateAuthToken_jwt_throws:
  "parseJWTToken (lit ''a.bnVsbA.c'') = Inr JNull
   \<and> validateAuthToken (\<lambda>v. Inr NaN) 1700000000000 1700000000000 (lit ''a.bnVsbA.c'')
       = Inl (TypeError (lit ''Cannot read properties of null (reading 'exp')''))
   \<and> parseJWTToken (lit ''a.eyJleHAiOi0xMDAwMDAwMDAwMDAwMH0.c'')
       = Inr (JObj [(lit ''exp'', JNum (- 10000000000000))])
   \<and> isTokenExpired (\<lambda>v. Inr NaN) 1700000000000 (JObj [(lit ''exp'', JNum (- 10000000000000))])
       = Inr True
   \<and> validateAuthToken (\<lambda>v. Inr NaN) 1700000000000 1700000000000
         (lit ''a.eyJleHAiOi0xMDAwMDAwMDAwMDAwMH0.c'')
       = Inl (RangeError (lit ''Invalid time value''))"
proof -
  have "isTokenExpired (\<lambda>v. Inr NaN) 1700000000000 (JObj [(lit ''exp'', JNum (- 10000000000000))])
        = Inr True"
    by (simp add: isTokenExpired_def)
  then show ?thesis
    by (simp add: parse_null validateAuthToken_null parse_exp validateAuthToken_far_exp)
qed

text \<open>
  C10 fails on the code: \<open>validateAuthToken\<close> is not total. \<open>parseJWTToken\<close> is not the only
  call that can throw, and the calls after it stand outside the \<open>try\<close> block. With the
  prefix \<open>Bearer\<close> the null payload throws the same \<open>TypeError\<close>, and a token whose claims
  are \<open>{"nbf":10000000000000}\<close>, not yet valid until a date after the last one a \<open>Date\<close>
  can hold, throws a \<open>RangeError\<close>.
\<close>

theorem validateAuthToken_not_total:
  "validateAuthToken (\<lambda>v. Inr NaN) 1700000000000 1700000000000 (lit ''Bearer a.bnVsbA.c'')
     = Inl (TypeError (lit ''Cannot read properties of null (reading 'exp')''))
   \<and> validateAuthToken (\<lambda>v. Inr NaN) 1700000000000 1700000000000
         (lit ''a.eyJuYmYiOjEwMDAwMDAwMDAwMDAwfQ.c'')
     = Inl (RangeError (lit ''Invalid time value''))"
  by (simp add: validateAuthToken_bearer_null validateAuthToken_far_nbf)

text \<open>The method \<open>getTokenInfo()\<close> of the client never throws.\<close>

lemma client_getTokenInfo_returns: "\<not> isl (client_getTokenInfo N t1 t2 c)"
  by (simp add: client_getTokenInfo_def split: option.splits sum.splits)

lemma client_getTokenInfo_none:
  "\<not> present (authToken (config c)) \<Longrightarrow> client_getTokenInfo N t1 t2 c = Inr None"
  by (cases "authToken (config c)") (simp_all add: client_getTokenInfo_def)

lemma client_getTokenInfo_unparsed:
  "authToken (config c) = Some tok \<Longrightarrow> parseJWTToken (strip_bearer tok) = Inl e \<Longrightarrow>
     client_getTokenInfo N t1 t2 c = Inr None"
  by (simp add: client_getTokenInfo_def getTokenInfo_def)

lemma getTokenInfo_null:
  "getTokenInfo N t1 t2 (lit ''a.bnVsbA.c'')
   = Inl (TypeError (lit ''Cannot read properties of null (reading 'exp')''))"
  by (simp add: getTokenInfo_def strip_null parse_null null_exp)

text \<open>
  C9 fails on the code. The client configured with the token \<open>a.bnVsbA.c\<close> is created, and
  its method \<open>validateToken()\<close> throws the \<open>TypeError\<close> that \<open>validateAuthToken\<close> throws on
  that token. Its method \<open>getTokenInfo()\<close> does not throw; it returns \<open>null\<close> although
  parsing the token does not fail, since its \<open>try\<close> block catches the same \<open>TypeError\<close>.
\<close>

theorem client_validateToken_throws:
  "(case createClient (\<lambda>u. u = lit ''https://api.admiral.io'') null_payload_config of
      Inl e \<Rightarrow> False
    | Inr c \<Rightarrow>
        validateToken (\<lambda>v. Inr NaN) 1700000000000 1700000000000 c
          = Inl (TypeError (lit ''Cannot read properties of null (reading 'exp')''))
        \<and> client_getTokenInfo (\<lambda>v. Inr NaN) 1700000000000 1700000000000 c = Inr None)
   \<and> parseJWTToken (strip_bearer (lit ''a.bnVsbA.c'')) = Inr JNull"
proof -
  obtain c where c: "createClient (\<lambda>u. u = lit ''https://api.admiral.io'') null_payload_config = Inr c"
    and cfg: "config c = null_payload_config"
    using createClient_returns [of "\<lambda>u. u = lit ''https://api.admiral.io''" null_payload_config]
    by (auto simp: null_payload_config_def)
  have "validateToken (\<lambda>v. Inr NaN) 1700000000000 1700000000000 c
          = Inl (TypeError (lit ''Cannot read properties of null (reading 'exp')''))"
    by (simp add: validateToken_def cfg null_payload_config_def validateAuthToken_null)
  moreover have "client_getTokenInfo (\<lambda>v. Inr NaN) 1700000000000 1700000000000 c = Inr None"
    by (simp add: client_getTokenInfo_def cfg null_payload_config_def getTokenInfo_null)
  ultimately show ?thesis
    by (simp add: c strip_null parse_null)
qed

end
